theory Spec2Isabelle
  imports Main "HOL-Library.Sublist" "HOL-Library.AList"
begin

section \<open>Values\<close>

text \<open>
  The routes of \<^verbatim>\<open>routes/beneficios.js\<close> receive JSON bodies, query strings and path
  parameters, and hand documents to the MongoDB driver. Strings are lists of
  \<^typ>\<open>char\<close>, each read as one code unit below 256 (so \<^verbatim>\<open>CHR 0xC1\<close> is the capital
  A with acute accent). Numbers are integers, written in decimal when
  JavaScript turns them into text. \<open>JOid\<close> is a driver-side identifier (an ObjectId);
  it occurs in stored documents and never in a parsed request body.
\<close>

datatype json =
    JNull
  | JBool bool
  | JNum int
  | JStr string
  | JArr "json list"
  | JObj "(string \<times> json) list"
  | JOid nat

text \<open>A value of \<^verbatim>\<open>req.query\<close> as the query-string parser builds it.\<close>

datatype qvalue =
    QStr string
  | QArr "qvalue list"
  | QObj "(string \<times> qvalue) list"

fun join_with :: "string \<Rightarrow> string list \<Rightarrow> string" where
  "join_with sep [] = []"
| "join_with sep [x] = x"
| "join_with sep (x # y # ys) = x @ sep @ join_with sep (y # ys)"

text \<open>JavaScript's \<^verbatim>\<open>String(v)\<close> on a query value; \<open>None\<close> is \<^verbatim>\<open>undefined\<close>.\<close>

fun q_String :: "qvalue \<Rightarrow> string" where
  "q_String (QStr s) = s"
| "q_String (QArr xs) = join_with '','' (map q_String xs)"
| "q_String (QObj kvs) = ''[object Object]''"

definition ToString :: "qvalue option \<Rightarrow> string" where
  "ToString v = (case v of None \<Rightarrow> ''undefined'' | Some x \<Rightarrow> q_String x)"

section \<open>parseInt and the fallback operator\<close>

definition code_unit :: "char \<Rightarrow> nat" where
  "code_unit c = of_char c"

definition isWhiteSpace :: "char \<Rightarrow> bool" where
  "isWhiteSpace c = (code_unit c \<in> {9, 10, 11, 12, 13, 32, 160})"

definition digitValue :: "char \<Rightarrow> nat option" where
  "digitValue c =
     (let n = code_unit c in
      if 48 \<le> n \<and> n \<le> 57 then Some (n - 48)
      else if 97 \<le> n \<and> n \<le> 122 then Some (n - 87)
      else if 65 \<le> n \<and> n \<le> 90 then Some (n - 55)
      else None)"

definition radixDigit :: "nat \<Rightarrow> char \<Rightarrow> bool" where
  "radixDigit R c = (case digitValue c of None \<Rightarrow> False | Some v \<Rightarrow> v < R)"

definition radixValue :: "nat \<Rightarrow> string \<Rightarrow> nat" where
  "radixValue R Z =
     foldl (\<lambda>a c. a * R + (case digitValue c of None \<Rightarrow> 0 | Some v \<Rightarrow> v)) 0 Z"

text \<open>
  \<^verbatim>\<open>parseInt(string)\<close> with no radix argument: leading white space is dropped, a sign is
  read, a \<^verbatim>\<open>0x\<close> prefix selects radix 16, and the longest run of digits is the value.
  \<open>None\<close> is \<^verbatim>\<open>NaN\<close>.
\<close>

definition parseInt :: "string \<Rightarrow> int option" where
  "parseInt inputString =
     (let S = dropWhile isWhiteSpace inputString;
          sign = (if take 1 S = ''-'' then - 1 else (1::int));
          S1 = (if take 1 S = ''+'' \<or> take 1 S = ''-'' then drop 1 S else S);
          hex = (take 2 S1 = ''0x'' \<or> take 2 S1 = ''0X'');
          R = (if hex then 16 else 10);
          S2 = (if hex then drop 2 S1 else S1);
          Z = takeWhile (radixDigit R) S2
      in if Z = [] then None else Some (sign * int (radixValue R Z)))"

text \<open>\<^verbatim>\<open>x || d\<close> on a number: \<^verbatim>\<open>NaN\<close> and zero are falsy.\<close>

definition or_else :: "int option \<Rightarrow> int \<Rightarrow> int" where
  "or_else x d = (case x of None \<Rightarrow> d | Some n \<Rightarrow> if n = 0 then d else n)"

section \<open>The collection and the driver\<close>

text \<open>
  The handle \<^verbatim>\<open>db\<close> and the constructor \<^verbatim>\<open>ObjectId\<close> come from
  \<^verbatim>\<open>connectToDatabase\<close> in \<^verbatim>\<open>utils/mongodb.js\<close>. The collection is a list of documents
  in storage order; \<open>calls\<close> records every driver operation a handler issues, in order;
  \<open>next_pk\<close> is the identifier the driver generates for the next document inserted
  without one. The driver and the server are taken to answer every call; the texts of
  the errors they raise are given as recent versions word them, and the routes only
  copy them into their responses.
\<close>

datatype selector = Everything | IdEq nat | NomeRegex string

datatype call =
    Find selector "int option" "int option" "(string \<times> int) list"
  | InsertOne json
  | UpdateOne selector json
  | DeleteOne selector

record db =
  docs :: "json list"
  next_pk :: nat
  calls :: "call list"

definition issue :: "call \<Rightarrow> db \<Rightarrow> db" where
  "issue c d = d\<lparr>calls := calls d @ [c]\<rparr>"

text \<open>
  What a route does with a request: it sends a status and a body, or an exception
  leaves the handler with no response sent, or the request lies outside what this
  development describes (\<open>Unmodelled\<close>; see the sections on regular expressions and on
  field names).
\<close>

datatype outcome = Responded nat json | Unhandled string | Unmodelled

section \<open>GET / (list)\<close>

record list_query =
  q_limit :: "qvalue option"
  q_skip :: "qvalue option"
  q_order :: "qvalue option"

definition limit_arg :: "list_query \<Rightarrow> int" where
  "limit_arg q = or_else (parseInt (ToString (q_limit q))) 10"

definition skip_arg :: "list_query \<Rightarrow> int" where
  "skip_arg q = or_else (parseInt (ToString (q_skip q))) 0"

definition skip_error :: string where
  "skip_error = ''skip must be non-negative''"

text \<open>
  The cursor applies skip and then limit to the sorted documents. The server rejects a
  negative skip; the driver sends a negative limit as its absolute value, and a limit
  of zero means no limit.
\<close>

definition window :: "int \<Rightarrow> int \<Rightarrow> json list \<Rightarrow> string + json list" where
  "window l s xs =
     (if s < 0 then Inl skip_error
      else let ys = drop (nat s) xs in Inr (if l = 0 then ys else take (nat \<bar>l\<bar>) ys))"

definition list_error :: "string \<Rightarrow> json" where
  "list_error message =
     JObj [(''message'', JStr (''Erro ao obter a listagem dos benef'' @ [CHR 0xED] @ ''cios'')),
           (''error'', JStr message)]"

text \<open>
  The server's ordering of documents for a sort specification is the parameter
  \<open>sort_docs\<close>: MongoDB fixes the order of documents with equal sort keys only up to
  its own choice.
\<close>

definition route_list ::
  "((string \<times> int) list \<Rightarrow> json list \<Rightarrow> json list) \<Rightarrow> db \<Rightarrow> list_query \<Rightarrow> outcome \<times> db" where
  "route_list sort_docs d q =
     (let order = q_order q;
          d1 = issue (Find Everything (Some (limit_arg q)) (Some (skip_arg q)) [(''order'', 1)]) d
      in case window (limit_arg q) (skip_arg q) (sort_docs [(''order'', 1)] (docs d1)) of
           Inl message \<Rightarrow> (Responded 500 (list_error message), d1)
         | Inr found \<Rightarrow> (Responded 200 (JArr found), d1))"

text \<open>
  A server that returns documents with equal sort keys in storage order, and a
  collection of two documents without a field \<^verbatim>\<open>order\<close>, for concrete runs.
\<close>

definition storage_order :: "(string \<times> int) list \<Rightarrow> json list \<Rightarrow> json list" where
  "storage_order spec xs = xs"

definition two_docs :: db where
  "two_docs =
     \<lparr>docs = [JObj [(''_id'', JOid 1), (''nome'', JStr (''Cesta B'' @ [CHR 0xE1] @ ''sica''))],
              JObj [(''_id'', JOid 2), (''nome'', JStr (''Aux'' @ [CHR 0xED] @ ''lio g'' @ [CHR 0xE1] @ ''s''))]],
      next_pk = 3, calls = []\<rparr>"

definition limit_zero :: list_query where
  "limit_zero = \<lparr>q_limit = Some (QStr ''0''), q_skip = Some (QStr ''0''), q_order = None\<rparr>"


section \<open>Documents and identifiers\<close>

fun field :: "string \<Rightarrow> json \<Rightarrow> json option" where
  "field k (JObj kvs) = map_of kvs k"
| "field k v = None"

text \<open>The filter \<^verbatim>\<open>{'_id': {$eq: oid}}\<close> for an ObjectId \<open>oid\<close>.\<close>

definition id_is :: "nat \<Rightarrow> json \<Rightarrow> bool" where
  "id_is oid doc = (field ''_id'' doc = Some (JOid oid))"

text \<open>
  \<^verbatim>\<open>new ObjectId(x)\<close> is a parameter \<open>ObjectId\<close> of the routes that build identifiers:
  it takes the argument (\<open>None\<close> for \<^verbatim>\<open>undefined\<close>) and gives the identifier, or \<open>Inl\<close>
  the message of the error it throws. \<open>hex_ObjectId\<close> is one such constructor, for
  concrete runs: it accepts a string of 24 hexadecimal digits, and stands for a newly
  generated identifier when it is given no argument.
\<close>

definition hex_ObjectId :: "json option \<Rightarrow> string + nat" where
  "hex_ObjectId x =
     (case x of
        None \<Rightarrow> Inr 0
      | Some (JStr s) \<Rightarrow>
          if length s = 24 \<and> list_all (radixDigit 16) s then Inr (radixValue 16 s)
          else Inl ''input must be a 24 character hex string, 12 byte Uint8Array, or an integer''
      | Some v \<Rightarrow> Inl ''input must be a 24 character hex string, 12 byte Uint8Array, or an integer'')"

text \<open>
  The server keeps \<^verbatim>\<open>_id\<close> unique in a collection, and every stored document has one.
\<close>

definition unique_ids :: "db \<Rightarrow> bool" where
  "unique_ids d =
     (distinct (map (field ''_id'') (docs d)) \<and> list_all (\<lambda>doc. field ''_id'' doc \<noteq> None) (docs d))"

section \<open>GET /id/:id\<close>

definition structured_error :: "string \<Rightarrow> string \<Rightarrow> string \<Rightarrow> json" where
  "structured_error v m p =
     JObj [(''errors'', JArr [JObj [(''value'', JStr v), (''msg'', JStr m), (''param'', JStr p)]])]"

definition route_get_by_id :: "(json option \<Rightarrow> string + nat) \<Rightarrow> db \<Rightarrow> string \<Rightarrow> outcome \<times> db" where
  "route_get_by_id ObjectId d id_param =
     (case ObjectId (Some (JStr id_param)) of
        Inl message \<Rightarrow>
          (Responded 500
             (structured_error message (''Erro ao obter o benef'' @ [CHR 0xED] @ ''cio pelo ID'')
                ''/id/:id''), d)
      | Inr oid \<Rightarrow>
          (let d1 = issue (Find (IdEq oid) None None []) d
           in (Responded 200 (JArr (filter (id_is oid) (docs d1))), d1)))"

section \<open>DELETE /:id\<close>

fun remove_first :: "('a \<Rightarrow> bool) \<Rightarrow> 'a list \<Rightarrow> 'a list" where
  "remove_first P [] = []"
| "remove_first P (x # xs) = (if P x then xs else x # remove_first P xs)"

text \<open>\<^verbatim>\<open>deleteOne\<close> removes the first matching document and reports how many it removed.\<close>

definition deleteOne :: "nat \<Rightarrow> db \<Rightarrow> json \<times> nat \<times> db" where
  "deleteOne oid d =
     (let d1 = issue (DeleteOne (IdEq oid)) d;
          deletedCount = (if list_ex (id_is oid) (docs d1) then 1 else 0)
      in (JObj [(''acknowledged'', JBool True), (''deletedCount'', JNum (int deletedCount))],
          deletedCount,
          d1\<lparr>docs := remove_first (id_is oid) (docs d1)\<rparr>))"

text \<open>
  The handler has no \<^verbatim>\<open>try\<close>: an error thrown by \<^verbatim>\<open>new ObjectId\<close> leaves it, and no
  response is sent.
\<close>

definition route_delete :: "(json option \<Rightarrow> string + nat) \<Rightarrow> db \<Rightarrow> string \<Rightarrow> outcome \<times> db" where
  "route_delete ObjectId d id_param =
     (case ObjectId (Some (JStr id_param)) of
        Inl message \<Rightarrow> (Unhandled message, d)
      | Inr oid \<Rightarrow>
          (case deleteOne oid d of
             (result, deletedCount, d1) \<Rightarrow>
               if deletedCount = 0 then
                 (Responded 404
                    (structured_error
                       (''N'' @ [CHR 0xE3] @ ''o h'' @ [CHR 0xE1] @ '' nenhum benef'' @ [CHR 0xED]
                          @ ''cio com o id '' @ id_param)
                       (''Erro ao excluir o benef'' @ [CHR 0xED] @ ''cio'') ''/:id''), d1)
               else (Responded 200 result, d1)))"

section \<open>The validation rule set\<close>

text \<open>
  \<^verbatim>\<open>validaBeneficio\<close> is a list of express-validator chains, run as middleware before
  the handlers of POST and PUT. The chains are read on \<^verbatim>\<open>req.body\<close>, which is the
  parsed JSON object; a request is taken to carry the checked fields in its body only.
\<close>

subsection \<open>Text of a value\<close>

fun digits10 :: "nat \<Rightarrow> string" where
  "digits10 n =
     (if n < 10 then [char_of (48 + n)] else digits10 (n div 10) @ [char_of (48 + n mod 10)])"

declare digits10.simps [simp del]

definition show_int :: "int \<Rightarrow> string" where
  "show_int i = (if i < 0 then ''-'' @ digits10 (nat (- i)) else digits10 (nat i))"

fun hex_digits :: "nat \<Rightarrow> nat \<Rightarrow> string" where
  "hex_digits 0 n = []"
| "hex_digits (Suc k) n =
     hex_digits k (n div 16) @ [char_of (if n mod 16 < 10 then 48 + n mod 16 else 87 + n mod 16)]"

text \<open>
  \<^verbatim>\<open>String(v)\<close>, and for arrays and objects their \<^verbatim>\<open>toString()\<close>: an array joins its
  elements with commas, \<^verbatim>\<open>null\<close> elements giving the empty string.
\<close>

fun js_String :: "json \<Rightarrow> string" where
  "js_String JNull = ''null''"
| "js_String (JBool b) = (if b then ''true'' else ''false'')"
| "js_String (JNum n) = show_int n"
| "js_String (JStr s) = s"
| "js_String (JArr xs) = join_with '','' (map (\<lambda>x. if x = JNull then [] else js_String x) xs)"
| "js_String (JObj kvs) = ''[object Object]''"
| "js_String (JOid n) = hex_digits 24 n"

text \<open>
  The \<^verbatim>\<open>toString\<close> of express-validator, applied to a value before a standard validator
  or sanitizer sees it: a non-empty array gives the text of its first element,
  \<^verbatim>\<open>undefined\<close> and \<^verbatim>\<open>null\<close> give the empty string.
\<close>

definition toString_shallow :: "json option \<Rightarrow> string" where
  "toString_shallow value =
     (case value of None \<Rightarrow> [] | Some JNull \<Rightarrow> [] | Some v \<Rightarrow> js_String v)"

definition toString :: "json option \<Rightarrow> string" where
  "toString value =
     (case value of Some (JArr (x # xs)) \<Rightarrow> toString_shallow (Some x) | _ \<Rightarrow> toString_shallow value)"

subsection \<open>Validators and sanitizers of validator.js\<close>

definition isEmpty :: "string \<Rightarrow> bool" where
  "isEmpty str = (length str = 0)"

definition isLength :: "nat \<Rightarrow> nat option \<Rightarrow> string \<Rightarrow> bool" where
  "isLength lo hi str =
     (length str \<ge> lo \<and> (case hi of None \<Rightarrow> True | Some m \<Rightarrow> length str \<le> m))"

definition isDigit :: "char \<Rightarrow> bool" where
  "isDigit c = (48 \<le> code_unit c \<and> code_unit c \<le> 57)"

text \<open>\<^verbatim>\<open>isNumeric\<close> tests \<^verbatim>\<open>/^[+-]?([0-9]*[.])?[0-9]+$/\<close>.\<close>

definition isNumeric :: "string \<Rightarrow> bool" where
  "isNumeric str =
     (let s1 = (if take 1 str = ''+'' \<or> take 1 str = ''-'' then drop 1 str else str);
          rest = dropWhile isDigit s1
      in if rest = [] then s1 \<noteq> []
         else take 1 rest = ''.'' \<and> drop 1 rest \<noteq> [] \<and> list_all isDigit (drop 1 rest))"

text \<open>
  A regular expression literal of the shape \<^verbatim>\<open>/^...$/\<close> whose items each take one
  character: \<^verbatim>\<open>\d\<close> or a literal character.
\<close>

datatype pattern_item = Digit | Lit char

fun item_matches :: "pattern_item \<Rightarrow> char \<Rightarrow> bool" where
  "item_matches Digit c = isDigit c"
| "item_matches (Lit l) c = (c = l)"

definition matches :: "pattern_item list \<Rightarrow> string \<Rightarrow> bool" where
  "matches pattern str = list_all2 item_matches pattern str"

text \<open>\<^verbatim>\<open>/^\d{4}-\d{2}-\d{2}$/\<close>\<close>

definition date_pattern :: "pattern_item list" where
  "date_pattern =
     replicate 4 Digit @ [Lit CHR ''-''] @ replicate 2 Digit @ [Lit CHR ''-''] @ replicate 2 Digit"

definition trim :: "string \<Rightarrow> string" where
  "trim str = rev (dropWhile isWhiteSpace (rev (dropWhile isWhiteSpace str)))"

subsection \<open>Chains\<close>

text \<open>
  A chain is the field it checks and the stack of items the builder calls leave:
  a validator with its negation flag and message, or a sanitizer. \<^verbatim>\<open>not()\<close> negates the
  next validator, and \<^verbatim>\<open>withMessage\<close> sets the message of the last validator added.
\<close>

datatype item = Validator bool "string \<Rightarrow> bool" string | Sanitizer "string \<Rightarrow> string"

record chain =
  c_field :: string
  c_stack :: "item list"
  c_negate :: bool

definition check :: "string \<Rightarrow> chain" where
  "check f = \<lparr>c_field = f, c_stack = [], c_negate = False\<rparr>"

definition not_next :: "chain \<Rightarrow> chain" where
  "not_next c = c\<lparr>c_negate := True\<rparr>"

definition validator :: "(string \<Rightarrow> bool) \<Rightarrow> chain \<Rightarrow> chain" where
  "validator v c =
     c\<lparr>c_stack := c_stack c @ [Validator (c_negate c) v ''Invalid value''], c_negate := False\<rparr>"

definition sanitizer :: "(string \<Rightarrow> string) \<Rightarrow> chain \<Rightarrow> chain" where
  "sanitizer s c = c\<lparr>c_stack := c_stack c @ [Sanitizer s]\<rparr>"

definition notEmpty :: "chain \<Rightarrow> chain" where
  "notEmpty c = validator isEmpty (not_next c)"

fun set_last_message :: "string \<Rightarrow> item list \<Rightarrow> item list" where
  "set_last_message m [] = []"
| "set_last_message m (Validator n v old # rest) =
     (if list_ex (\<lambda>i. case i of Validator _ _ _ \<Rightarrow> True | Sanitizer _ \<Rightarrow> False) rest
      then Validator n v old # set_last_message m rest
      else Validator n v m # rest)"
| "set_last_message m (Sanitizer s # rest) = Sanitizer s # set_last_message m rest"

definition withMessage :: "string \<Rightarrow> chain \<Rightarrow> chain" where
  "withMessage m c = c\<lparr>c_stack := set_last_message m (c_stack c)\<rparr>"

definition build :: "string \<Rightarrow> (chain \<Rightarrow> chain) list \<Rightarrow> chain" where
  "build f steps = foldl (\<lambda>c step. step c) (check f) steps"

definition msg_nome_obrigatorio :: string where
  "msg_nome_obrigatorio =
     [CHR 0xC9] @ '' obrigat'' @ [CHR 0xF3] @ ''rio informar o nome do benef'' @ [CHR 0xED] @ ''cio''"

definition msg_nome_curto :: string where
  "msg_nome_curto = ''O nome '' @ [CHR 0xE9] @ '' muito curto. M'' @ [CHR 0xED] @ ''nimo de 5''"

definition msg_nome_longo :: string where
  "msg_nome_longo = ''O nome '' @ [CHR 0xE9] @ '' muito longo. M'' @ [CHR 0xE1] @ ''ximo de 200''"

definition msg_logradouro :: string where
  "msg_logradouro = ''O Logradouro '' @ [CHR 0xE9] @ '' obrigat'' @ [CHR 0xF3] @ ''rio''"

definition msg_bairro :: string where
  "msg_bairro = ''O bairro '' @ [CHR 0xE9] @ '' obrigat'' @ [CHR 0xF3] @ ''rio''"

definition msg_cidade :: string where
  "msg_cidade = ''A localidade '' @ [CHR 0xE9] @ '' obrigat'' @ [CHR 0xF3] @ ''rio''"

definition msg_pontos :: string where
  "msg_pontos = ''Os pontos devem ser um n'' @ [CHR 0xFA] @ ''mero''"

definition msg_data :: string where
  "msg_data = ''O formato de data '' @ [CHR 0xE9] @ '' inv'' @ [CHR 0xE1] @ ''lido. Informe yyyy-mm-dd''"

definition msg_quantidade :: string where
  "msg_quantidade = ''A quantidade deve ser um n'' @ [CHR 0xFA] @ ''mero''"

definition validaBeneficio :: "chain list" where
  "validaBeneficio =
     [build ''nome''
        [not_next, validator isEmpty, sanitizer trim, withMessage msg_nome_obrigatorio,
         validator (isLength 5 None), withMessage msg_nome_curto,
         validator (isLength 0 (Some 200)), withMessage msg_nome_longo],
      build ''endereco.logradouro'' [notEmpty, withMessage msg_logradouro],
      build ''endereco.bairro'' [notEmpty, withMessage msg_bairro],
      build ''endereco.cidade'' [notEmpty, withMessage msg_cidade],
      build ''pontos'' [validator isNumeric, withMessage msg_pontos],
      build ''data'' [validator (matches date_pattern), withMessage msg_data],
      build ''quantidade'' [validator isNumeric, withMessage msg_quantidade]]"

subsection \<open>Running the chains\<close>

text \<open>
  A field is read from the body by its path: a key of the body that is the whole path
  wins, otherwise the path is split at the dots and followed through nested objects
  (the segments of the paths used here are property names of objects).
\<close>

fun split_on :: "char \<Rightarrow> string \<Rightarrow> string list" where
  "split_on sep [] = [[]]"
| "split_on sep (c # cs) =
     (if c = sep then [] # split_on sep cs
      else (case split_on sep cs of [] \<Rightarrow> [[c]] | w # ws \<Rightarrow> (c # w) # ws))"

fun get_in :: "string list \<Rightarrow> json \<Rightarrow> json option" where
  "get_in [] v = Some v"
| "get_in (k # ks) v = (case field k v of None \<Rightarrow> None | Some w \<Rightarrow> get_in ks w)"

definition select :: "(string \<times> json) list \<Rightarrow> string \<Rightarrow> json option" where
  "select body path =
     (if map_of body path \<noteq> None then map_of body path
      else get_in (split_on CHR ''.'' path) (JObj body))"

fun set_in :: "string list \<Rightarrow> json \<Rightarrow> (string \<times> json) list \<Rightarrow> (string \<times> json) list" where
  "set_in [] v kvs = kvs"
| "set_in [k] v kvs = AList.update k v kvs"
| "set_in (k # k' # ks) v kvs =
     AList.update k
       (JObj (set_in (k' # ks) v (case map_of kvs k of Some (JObj inner) \<Rightarrow> inner | _ \<Rightarrow> []))) kvs"

definition write_back :: "(string \<times> json) list \<Rightarrow> string \<Rightarrow> json \<Rightarrow> (string \<times> json) list" where
  "write_back body path v =
     (if map_of body path \<noteq> None then AList.update path v body
      else set_in (split_on CHR ''.'' path) v body)"

text \<open>An array value is validated and sanitized element by element.\<close>

fun values_of :: "json option \<Rightarrow> json option list" where
  "values_of (Some (JArr xs)) = map Some xs"
| "values_of value = [value]"

text \<open>A sanitizer gives the new text of the value, or of each element of an array.\<close>

fun sanitize :: "(string \<Rightarrow> string) \<Rightarrow> json option \<Rightarrow> json" where
  "sanitize s (Some (JArr xs)) = JArr (map (\<lambda>x. JStr (s (toString (Some x)))) xs)"
| "sanitize s value = JStr (s (toString value))"

record verror =
  e_value :: "json option"
  e_msg :: string
  e_param :: string
  e_location :: string

record field_instance =
  i_originalValue :: "json option"
  i_value :: "json option"
  i_errors :: "verror list"
  i_body :: "(string \<times> json) list"

text \<open>
  One item of the stack on the field instance. A validator adds an error for each
  value it rejects and goes on; a sanitizer replaces the value. After the item, a
  value that differs from the original one is written to the body.
\<close>

fun run_item :: "string \<Rightarrow> field_instance \<Rightarrow> item \<Rightarrow> field_instance" where
  "run_item path st (Validator negated v message) =
     (let failed = filter (\<lambda>x. if negated then v (toString x) else \<not> v (toString x))
                     (values_of (i_value st));
          st1 = st\<lparr>i_errors := i_errors st
                  @ map (\<lambda>x. \<lparr>e_value = x, e_msg = message, e_param = path, e_location = ''body''\<rparr>)
                      failed\<rparr>
      in (case i_value st1 of
            None \<Rightarrow> st1
          | Some nv \<Rightarrow> if i_value st1 \<noteq> i_originalValue st1
                       then st1\<lparr>i_body := write_back (i_body st1) path nv\<rparr> else st1))"
| "run_item path st (Sanitizer s) =
     (let nv = sanitize s (i_value st);
          st1 = st\<lparr>i_value := Some nv\<rparr>
      in if i_value st1 \<noteq> i_originalValue st1
         then st1\<lparr>i_body := write_back (i_body st1) path nv\<rparr> else st1)"

definition run_chain :: "chain \<Rightarrow> (string \<times> json) list \<Rightarrow> verror list \<times> (string \<times> json) list" where
  "run_chain c body =
     (let v = select body (c_field c);
          st = foldl (run_item (c_field c))
                 \<lparr>i_originalValue = v, i_value = v, i_errors = [], i_body = body\<rparr> (c_stack c)
      in (i_errors st, i_body st))"

text \<open>
  The chains run one after the other on the request; \<^verbatim>\<open>validationResult(req).array()\<close>
  is the errors of all of them, in order.
\<close>

fun run_chains :: "chain list \<Rightarrow> (string \<times> json) list \<Rightarrow> verror list \<times> (string \<times> json) list" where
  "run_chains [] body = ([], body)"
| "run_chains (c # cs) body =
     (case run_chain c body of
        (errors, body1) \<Rightarrow>
          (case run_chains cs body1 of (later, body2) \<Rightarrow> (errors @ later, body2)))"

definition error_json :: "verror \<Rightarrow> json" where
  "error_json e =
     JObj ((case e_value e of None \<Rightarrow> [] | Some v \<Rightarrow> [(''value'', v)])
           @ [(''msg'', JStr (e_msg e)), (''param'', JStr (e_param e)),
              (''location'', JStr (e_location e))])"

definition validation_failure :: "verror list \<Rightarrow> json" where
  "validation_failure errors = JObj [(''errors'', JArr (map error_json errors))]"

section \<open>Writing documents\<close>

text \<open>
  How the server treats a field name that is empty, starts with \<^verbatim>\<open>$\<close> or contains a dot
  depends on its version (it may reject the name, or read it as a path into nested
  documents). A document with such a name, at any depth, is outside this development:
  the driver operation answers \<open>Outside\<close> and the route \<open>Unmodelled\<close>.
\<close>

definition plain_key :: "string \<Rightarrow> bool" where
  "plain_key k = (k \<noteq> [] \<and> take 1 k \<noteq> ''$'' \<and> CHR ''.'' \<notin> set k)"

fun plain :: "json \<Rightarrow> bool" where
  "plain (JObj kvs) = list_all (\<lambda>kv. plain_key (fst kv) \<and> plain (snd kv)) kvs"
| "plain (JArr xs) = list_all plain xs"
| "plain v = True"

datatype 'a driver_result = Done 'a | Threw string | Outside

definition duplicate_key :: string where
  "duplicate_key = ''E11000 duplicate key error collection''"

definition array_id :: string where
  "array_id = ''The _id field cannot be an array''"

text \<open>
  \<^verbatim>\<open>insertOne(doc)\<close>: a document whose \<^verbatim>\<open>_id\<close> is missing or \<^verbatim>\<open>null\<close> gets the
  identifier the driver generates; any other \<^verbatim>\<open>_id\<close> is kept. The server stores \<^verbatim>\<open>_id\<close> as
  the first field and refuses an identifier already in the collection.
\<close>

definition insertOne :: "(string \<times> json) list \<Rightarrow> db \<Rightarrow> json driver_result \<times> db" where
  "insertOne doc d =
     (let d1 = issue (InsertOne (JObj doc)) d;
          generated = (map_of doc ''_id'' = None \<or> map_of doc ''_id'' = Some JNull);
          pk = (case map_of doc ''_id'' of
                  None \<Rightarrow> JOid (next_pk d1) | Some JNull \<Rightarrow> JOid (next_pk d1) | Some v \<Rightarrow> v);
          d2 = (if generated then d1\<lparr>next_pk := Suc (next_pk d1)\<rparr> else d1)
      in if \<not> plain (JObj doc) then (Outside, d)
         else if (case pk of JArr xs \<Rightarrow> True | _ \<Rightarrow> False) then (Threw array_id, d2)
         else if list_ex (\<lambda>other. field ''_id'' other = Some pk) (docs d2)
         then (Threw duplicate_key, d2)
         else (Done (JObj [(''acknowledged'', JBool True), (''insertedId'', pk)]),
               d2\<lparr>docs := docs d2 @ [JObj ((''_id'', pk) # AList.delete ''_id'' doc)]\<rparr>))"

definition immutable_id :: string where
  "immutable_id = ''Performing an update on the path _id would modify the immutable field _id''"

text \<open>
  \<^verbatim>\<open>$set\<close> with plain field names: each field of the operand replaces the field of
  that name in the document, or is added after the others. A \<^verbatim>\<open>$set\<close> that would change
  \<^verbatim>\<open>_id\<close> is refused.
\<close>

definition apply_set :: "(string \<times> json) list \<Rightarrow> json \<Rightarrow> json" where
  "apply_set changes doc =
     (case doc of
        JObj kvs \<Rightarrow> JObj (foldl (\<lambda>acc kv. AList.update (fst kv) (snd kv) acc) kvs changes)
      | other \<Rightarrow> other)"

fun replace_first :: "('a \<Rightarrow> bool) \<Rightarrow> ('a \<Rightarrow> 'a) \<Rightarrow> 'a list \<Rightarrow> 'a list" where
  "replace_first P f [] = []"
| "replace_first P f (x # xs) = (if P x then f x # xs else x # replace_first P f xs)"

definition update_result :: "nat \<Rightarrow> nat \<Rightarrow> json" where
  "update_result matched modified =
     JObj [(''acknowledged'', JBool True), (''modifiedCount'', JNum (int modified)),
           (''upsertedId'', JNull), (''upsertedCount'', JNum 0),
           (''matchedCount'', JNum (int matched))]"

definition updateOne :: "nat \<Rightarrow> (string \<times> json) list \<Rightarrow> db \<Rightarrow> json driver_result \<times> db" where
  "updateOne oid changes d =
     (let d1 = issue (UpdateOne (IdEq oid) (JObj [(''$set'', JObj changes)])) d
      in if \<not> plain (JObj changes) then (Outside, d)
         else (case find (id_is oid) (docs d1) of
                 None \<Rightarrow> (Done (update_result 0 0), d1)
               | Some doc \<Rightarrow>
                   if field ''_id'' (apply_set changes doc) \<noteq> field ''_id'' doc
                   then (Threw immutable_id, d1)
                   else (Done (update_result 1 (if apply_set changes doc = doc then 0 else 1)),
                         d1\<lparr>docs := replace_first (id_is oid) (apply_set changes) (docs d1)\<rparr>)))"

section \<open>POST /\<close>

definition route_post :: "db \<Rightarrow> (string \<times> json) list \<Rightarrow> outcome \<times> db" where
  "route_post d body0 =
     (case run_chains validaBeneficio body0 of
        (errors, body) \<Rightarrow>
          if errors \<noteq> [] then (Responded 400 (validation_failure errors), d)
          else (case insertOne body d of
                  (Done beneficio, d1) \<Rightarrow> (Responded 201 beneficio, d1)
                | (Threw message, d1) \<Rightarrow>
                    (Responded 500 (JObj [(''message'', JStr (message @ '' Erro no Server''))]), d1)
                | (Outside, d1) \<Rightarrow> (Unmodelled, d1)))"

section \<open>PUT /\<close>

text \<open>
  The chains have run, as middleware, when the handler starts. The handler reads
  \<^verbatim>\<open>req.body._id\<close>, deletes it from the body, and then looks at the validation result.
\<close>

definition route_put ::
  "(json option \<Rightarrow> string + nat) \<Rightarrow> db \<Rightarrow> (string \<times> json) list \<Rightarrow> outcome \<times> db" where
  "route_put ObjectId d body0 =
     (case run_chains validaBeneficio body0 of
        (errors, body1) \<Rightarrow>
          (let idDocumento = map_of body1 ''_id'';
               body = AList.delete ''_id'' body1
           in if errors \<noteq> [] then (Responded 400 (validation_failure errors), d)
              else (case ObjectId idDocumento of
                      Inl message \<Rightarrow> (Responded 500 (JObj [(''errors'', JStr message)]), d)
                    | Inr oid \<Rightarrow>
                        (case updateOne oid body d of
                           (Done beneficio, d1) \<Rightarrow> (Responded 202 beneficio, d1)
                         | (Threw message, d1) \<Rightarrow>
                             (Responded 500 (JObj [(''errors'', JStr message)]), d1)
                         | (Outside, d1) \<Rightarrow> (Unmodelled, d1)))))"

section \<open>GET /nome/:filtro\<close>

subsection \<open>Regular expressions\<close>

text \<open>
  \<^verbatim>\<open>$regex\<close> hands the text of \<^verbatim>\<open>filtro\<close> to the server as a regular expression.
  The expressions described here are sequences of atoms, each a character, an escaped
  metacharacter or the dot, each optionally followed by one of \<^verbatim>\<open>*\<close>, \<^verbatim>\<open>+\<close>, \<^verbatim>\<open>?\<close>.
  A quantifier with nothing before it and a backslash at the end are errors of the
  expression. Every other construct (groups, alternatives, classes, anchors, braces,
  escapes of letters and digits, a quantifier after a quantifier) is \<open>Unsupported\<close>.
\<close>

datatype atom = AnyChar | Literal char

datatype quant = One | Opt | Star | Plus

datatype token = TAtom atom | TQuant quant | TBad | TTrailing

datatype compiled = Pattern "(atom \<times> quant) list" | Invalid string | Unsupported

definition metachar :: "char \<Rightarrow> bool" where
  "metachar c = (c = CHR 0x5C \<or> c \<in> set ''^$.[]|()?*+{}'')"

definition token_of :: "char \<Rightarrow> token" where
  "token_of c =
     (if c = CHR ''.'' then TAtom AnyChar
      else if c = CHR ''*'' then TQuant Star
      else if c = CHR ''+'' then TQuant Plus
      else if c = CHR ''?'' then TQuant Opt
      else if metachar c then TBad
      else TAtom (Literal c))"

fun tokens :: "string \<Rightarrow> token list" where
  "tokens [] = []"
| "tokens (c # cs) =
     (if c = CHR 0x5C then
        (case cs of
           [] \<Rightarrow> [TTrailing]
         | e # rest \<Rightarrow> (if metachar e then TAtom (Literal e) else TBad) # tokens rest)
      else token_of c # tokens cs)"

definition nothing_to_repeat :: string where
  "nothing_to_repeat = ''Regular expression is invalid: quantifier does not follow a repeatable item''"

definition trailing_backslash :: string where
  "trailing_backslash = ''Regular expression is invalid: '' @ [CHR 0x5C] @ '' at end of pattern''"

definition followed_by :: "atom \<times> quant \<Rightarrow> compiled \<Rightarrow> compiled" where
  "followed_by x r = (case r of Pattern p \<Rightarrow> Pattern (x # p) | other \<Rightarrow> other)"

fun assemble :: "token list \<Rightarrow> compiled" where
  "assemble [] = Pattern []"
| "assemble (TAtom a # TQuant q # TQuant q' # ts) = Unsupported"
| "assemble (TAtom a # TQuant q # ts) = followed_by (a, q) (assemble ts)"
| "assemble (TAtom a # ts) = followed_by (a, One) (assemble ts)"
| "assemble (TQuant q # ts) = Invalid nothing_to_repeat"
| "assemble (TBad # ts) = Unsupported"
| "assemble (TTrailing # ts) = Invalid trailing_backslash"

definition compile :: "string \<Rightarrow> compiled" where
  "compile pattern = assemble (tokens pattern)"

text \<open>
  Matching with the option \<^verbatim>\<open>i\<close>: letters are compared after folding capitals to
  small letters (A to Z, and the accented capitals from 0xC0 to 0xDE except the
  multiplication sign); the dot takes any character but a line feed.
\<close>

definition fold_case :: "char \<Rightarrow> char" where
  "fold_case c =
     (let n = code_unit c in
      if (65 \<le> n \<and> n \<le> 90) \<or> (192 \<le> n \<and> n \<le> 222 \<and> n \<noteq> 215) then char_of (n + 32) else c)"

fun atom_ok :: "atom \<Rightarrow> char \<Rightarrow> bool" where
  "atom_ok AnyChar c = (c \<noteq> CHR 0x0A)"
| "atom_ok (Literal l) c = (fold_case c = fold_case l)"

fun match_here :: "(atom \<times> quant) list \<Rightarrow> string \<Rightarrow> bool" where
  "match_here [] s = True"
| "match_here ((a, One) # r) s =
     (case s of [] \<Rightarrow> False | c # cs \<Rightarrow> atom_ok a c \<and> match_here r cs)"
| "match_here ((a, Opt) # r) s =
     (match_here r s \<or> (case s of [] \<Rightarrow> False | c # cs \<Rightarrow> atom_ok a c \<and> match_here r cs))"
| "match_here ((a, Star) # r) s =
     (match_here r s
      \<or> (case s of [] \<Rightarrow> False | c # cs \<Rightarrow> atom_ok a c \<and> match_here ((a, Star) # r) cs))"
| "match_here ((a, Plus) # r) s =
     (case s of [] \<Rightarrow> False | c # cs \<Rightarrow> atom_ok a c \<and> match_here ((a, Star) # r) cs)"

text \<open>The expression is not anchored: it may match from any position.\<close>

fun search :: "(atom \<times> quant) list \<Rightarrow> string \<Rightarrow> bool" where
  "search p [] = match_here p []"
| "search p (c # cs) = (match_here p (c # cs) \<or> search p cs)"

text \<open>
  The filter \<^verbatim>\<open>{$or: [{nome: {$regex: filtro, $options: 'i'}}]}\<close>: the field \<^verbatim>\<open>nome\<close> is a
  string that matches, or an array with a string that matches.
\<close>

definition nome_matches :: "(atom \<times> quant) list \<Rightarrow> json \<Rightarrow> bool" where
  "nome_matches p doc =
     (case field ''nome'' doc of
        Some (JStr s) \<Rightarrow> search p s
      | Some (JArr xs) \<Rightarrow> list_ex (\<lambda>x. case x of JStr s \<Rightarrow> search p s | _ \<Rightarrow> False) xs
      | _ \<Rightarrow> False)"

definition route_get_by_nome :: "db \<Rightarrow> string \<Rightarrow> outcome \<times> db" where
  "route_get_by_nome d filtro =
     (let d1 = issue (Find (NomeRegex filtro) None None []) d
      in case compile filtro of
           Pattern p \<Rightarrow> (Responded 200 (JArr (filter (nome_matches p) (docs d1))), d1)
         | Invalid message \<Rightarrow>
             (Responded 500
                (structured_error message
                   (''Erro ao obter o benef'' @ [CHR 0xED] @ ''cios pelo nome'') ''/nome/:filtro''), d1)
         | Unsupported \<Rightarrow> (Unmodelled, d1))"

text \<open>
  What the specification says of the search: the text of \<^verbatim>\<open>filtro\<close> occurs in \<^verbatim>\<open>nome\<close>
  as a substring, letter case ignored.
\<close>

definition contains_ci :: "string \<Rightarrow> string \<Rightarrow> bool" where
  "contains_ci filtro nome = sublist (map fold_case filtro) (map fold_case nome)"

definition nome_contains :: "string \<Rightarrow> json \<Rightarrow> bool" where
  "nome_contains filtro doc =
     (case field ''nome'' doc of
        Some (JStr s) \<Rightarrow> contains_ci filtro s
      | Some (JArr xs) \<Rightarrow> list_ex (\<lambda>x. case x of JStr s \<Rightarrow> contains_ci filtro s | _ \<Rightarrow> False) xs
      | _ \<Rightarrow> False)"

section \<open>The rule set as the specification lists it\<close>

text \<open>
  Nine rules, in order: the field, whether the rule sees the trimmed text of the field,
  whether the test is negated, the test, and the message. A rule is violated by each
  value of the field (each element, for an array) that fails its test.
\<close>

record rule =
  r_field :: string
  r_trimmed :: bool
  r_negated :: bool
  r_test :: "string \<Rightarrow> bool"
  r_message :: string

definition rules :: "rule list" where
  "rules =
     [\<lparr>r_field = ''nome'', r_trimmed = False, r_negated = True, r_test = isEmpty,
        r_message = msg_nome_obrigatorio\<rparr>,
      \<lparr>r_field = ''nome'', r_trimmed = True, r_negated = False, r_test = isLength 5 None,
        r_message = msg_nome_curto\<rparr>,
      \<lparr>r_field = ''nome'', r_trimmed = True, r_negated = False, r_test = isLength 0 (Some 200),
        r_message = msg_nome_longo\<rparr>,
      \<lparr>r_field = ''endereco.logradouro'', r_trimmed = False, r_negated = True, r_test = isEmpty,
        r_message = msg_logradouro\<rparr>,
      \<lparr>r_field = ''endereco.bairro'', r_trimmed = False, r_negated = True, r_test = isEmpty,
        r_message = msg_bairro\<rparr>,
      \<lparr>r_field = ''endereco.cidade'', r_trimmed = False, r_negated = True, r_test = isEmpty,
        r_message = msg_cidade\<rparr>,
      \<lparr>r_field = ''pontos'', r_trimmed = False, r_negated = False, r_test = isNumeric,
        r_message = msg_pontos\<rparr>,
      \<lparr>r_field = ''data'', r_trimmed = False, r_negated = False, r_test = matches date_pattern,
        r_message = msg_data\<rparr>,
      \<lparr>r_field = ''quantidade'', r_trimmed = False, r_negated = False, r_test = isNumeric,
        r_message = msg_quantidade\<rparr>]"

definition seen :: "rule \<Rightarrow> (string \<times> json) list \<Rightarrow> json option list" where
  "seen r body =
     (if r_trimmed r
      then map (\<lambda>x. Some (JStr (trim (toString x)))) (values_of (select body (r_field r)))
      else values_of (select body (r_field r)))"

definition violates :: "rule \<Rightarrow> json option \<Rightarrow> bool" where
  "violates r x = (if r_negated r then r_test r (toString x) else \<not> r_test r (toString x))"

definition failures :: "rule \<Rightarrow> (string \<times> json) list \<Rightarrow> verror list" where
  "failures r body =
     map (\<lambda>x. \<lparr>e_value = x, e_msg = r_message r, e_param = r_field r, e_location = ''body''\<rparr>)
       (filter (violates r) (seen r body))"

definition violations :: "(string \<times> json) list \<Rightarrow> verror list" where
  "violations body = concat (map (\<lambda>r. failures r body) rules)"

text \<open>The body after the chains: \<^verbatim>\<open>nome\<close> holds its trimmed text.\<close>

definition trimmed_nome :: "(string \<times> json) list \<Rightarrow> json" where
  "trimmed_nome body = sanitize trim (map_of body ''nome'')"

definition sanitized :: "(string \<times> json) list \<Rightarrow> (string \<times> json) list" where
  "sanitized body =
     (if map_of body ''nome'' = Some (trimmed_nome body) then body
      else AList.update ''nome'' (trimmed_nome body) body)"


definition short_body :: "(string \<times> json) list" where
  "short_body = [(''nome'', JStr ''abc''), (''pontos'', JStr ''dez'')]"



definition plus_docs :: db where
  "plus_docs = \<lparr>docs = [JObj [(''_id'', JOid 1), (''nome'', JStr ''Vale A+B'')]], next_pk = 2, calls = []\<rparr>"

section \<open>Properties of the list route\<close>


lemma parseInt_zero: "parseInt (ToString (Some (QStr ''0''))) = Some 0"
  by (simp add: parseInt_def ToString_def isWhiteSpace_def code_unit_def radixDigit_def
      digitValue_def radixValue_def)



lemma route_list_calls:
  "calls (snd (route_list srt d q)) =
     calls d @ [Find Everything (Some (limit_arg q)) (Some (skip_arg q)) [(''order'', 1)]]"
  by (simp add: route_list_def issue_def Let_def split: sum.splits)

lemma route_list_docs: "docs (snd (route_list srt d q)) = docs d"
  by (simp add: route_list_def issue_def Let_def split: sum.splits)




text \<open>
  C8: two list requests that differ only in the \<^verbatim>\<open>order\<close> parameter issue the same
  query, sorted on the literal field \<^verbatim>\<open>order\<close> ascending, and get the same response
  on the same collection.
\<close>

theorem list_order_ignored:
  "route_list srt d (q\<lparr>q_order := a\<rparr>) = route_list srt d (q\<lparr>q_order := b\<rparr>)
   \<and> calls (snd (route_list srt d (q\<lparr>q_order := a\<rparr>)))
       = calls d @ [Find Everything (Some (limit_arg q)) (Some (skip_arg q)) [(''order'', 1)]]"
  by (simp add: route_list_def issue_def limit_arg_def skip_arg_def Let_def split: sum.splits)

text \<open>
  C10: a \<^verbatim>\<open>limit\<close> that parses to 0 (the string \<^verbatim>\<open>0\<close> for one) is replaced by 10, so the
  query is never issued with limit 0, and a page taken within the collection is never
  empty; a \<^verbatim>\<open>skip\<close> that parses to 0 gives skip 0, which is also the default.
\<close>

theorem list_limit_never_zero:
  "(parseInt (ToString (q_limit q)) = Some 0 \<longrightarrow> limit_arg q = 10)
   \<and> limit_arg q \<noteq> 0
   \<and> (parseInt (ToString (q_skip q)) = Some 0 \<longrightarrow> skip_arg q = 0)
   \<and> calls (snd (route_list srt d q))
       = calls d @ [Find Everything (Some (limit_arg q)) (Some (skip_arg q)) [(''order'', 1)]]
   \<and> (0 \<le> skip_arg q \<and> nat (skip_arg q) < length (srt [(''order'', 1)] (docs d))
        \<longrightarrow> (\<exists>ys. fst (route_list srt d q) = Responded 200 (JArr ys) \<and> ys \<noteq> []))"
proof -
  have nz: "limit_arg q \<noteq> 0"
    by (simp add: limit_arg_def or_else_def split: option.splits)
  have page: "\<exists>ys. fst (route_list srt d q) = Responded 200 (JArr ys) \<and> ys \<noteq> []"
    if "0 \<le> skip_arg q" and "nat (skip_arg q) < length (srt [(''order'', 1)] (docs d))"
    using that nz by (simp add: route_list_def issue_def window_def Let_def)
  show ?thesis
    using nz page by (simp add: route_list_calls limit_arg_def skip_arg_def or_else_def)
qed

theorem list_limit_never_zero_witness:
  "parseInt (ToString (q_limit limit_zero)) = Some 0
   \<and> parseInt (ToString (q_skip limit_zero)) = Some 0
   \<and> limit_arg limit_zero = 10 \<and> skip_arg limit_zero = 0
   \<and> fst (route_list storage_order two_docs limit_zero) = Responded 200 (JArr (docs two_docs))"
proof -
  have zero: "parseInt (ToString (q_limit limit_zero)) = Some 0"
    "parseInt (ToString (q_skip limit_zero)) = Some 0"
    using parseInt_zero by (simp_all add: limit_zero_def)
  from list_limit_never_zero [of limit_zero storage_order two_docs] zero
  have args: "limit_arg limit_zero = 10 \<and> skip_arg limit_zero = 0"
    by simp
  then have "fst (route_list storage_order two_docs limit_zero)
      = Responded 200 (JArr (docs two_docs))"
    by (simp add: route_list_def issue_def window_def storage_order_def two_docs_def Let_def)
  with zero args show ?thesis by simp
qed

section \<open>The chains and the rule set\<close>

lemma violates_fun:
  "violates r = (\<lambda>x. if r_negated r then r_test r (toString x) else \<not> r_test r (toString x))"
  by (simp add: fun_eq_iff violates_def)

lemma validator_step:
  "run_item path \<lparr>i_originalValue = ov, i_value = v, i_errors = es, i_body = b\<rparr> (Validator n t m)
   = \<lparr>i_originalValue = ov, i_value = v,
       i_errors = es @ map (\<lambda>x. \<lparr>e_value = x, e_msg = m, e_param = path, e_location = ''body''\<rparr>)
          (filter (\<lambda>x. if n then t (toString x) else \<not> t (toString x)) (values_of v)),
       i_body = (if v = ov then b else case v of None \<Rightarrow> b | Some nv \<Rightarrow> write_back b path nv)\<rparr>"
  by (simp add: Let_def split: option.splits)

lemma sanitizer_step:
  "run_item path \<lparr>i_originalValue = ov, i_value = v, i_errors = es, i_body = b\<rparr> (Sanitizer s)
   = \<lparr>i_originalValue = ov, i_value = Some (sanitize s v), i_errors = es,
       i_body = (if Some (sanitize s v) = ov then b else write_back b path (sanitize s v))\<rparr>"
  by (simp add: Let_def)

lemma run_single:
  "run_chain \<lparr>c_field = f, c_stack = [Validator n v m], c_negate = False\<rparr> body
   = (failures \<lparr>r_field = f, r_trimmed = False, r_negated = n, r_test = v, r_message = m\<rparr> body, body)"
  by (simp add: run_chain_def validator_step failures_def seen_def violates_fun del: run_item.simps)

lemma select_nome: "select body ''nome'' = map_of body ''nome''"
  by (simp add: select_def)

lemma write_back_nome: "write_back body ''nome'' v = AList.update ''nome'' v body"
  by (simp add: write_back_def)

lemma values_sanitize:
  "values_of (Some (sanitize s v)) = map (\<lambda>x. Some (JStr (s (toString x)))) (values_of v)"
  by (induction s v rule: sanitize.induct) simp_all

lemma run_nome:
  "run_chain \<lparr>c_field = ''nome'',
        c_stack = [Validator True isEmpty m1, Sanitizer trim,
                   Validator False (isLength 5 None) m2,
                   Validator False (isLength 0 (Some 200)) m3],
        c_negate = False\<rparr> body
   = (failures \<lparr>r_field = ''nome'', r_trimmed = False, r_negated = True, r_test = isEmpty, r_message = m1\<rparr> body
      @ failures \<lparr>r_field = ''nome'', r_trimmed = True, r_negated = False, r_test = isLength 5 None, r_message = m2\<rparr> body
      @ failures \<lparr>r_field = ''nome'', r_trimmed = True, r_negated = False, r_test = isLength 0 (Some 200), r_message = m3\<rparr> body,
      sanitized body)"
  by (simp add: run_chain_def validator_step sanitizer_step select_nome Let_def
        write_back_nome failures_def seen_def violates_fun values_sanitize
        sanitized_def trimmed_nome_def
        del: run_item.simps)

lemma stacks:
  "validaBeneficio =
     [\<lparr>c_field = ''nome'',
        c_stack = [Validator True isEmpty msg_nome_obrigatorio, Sanitizer trim,
                   Validator False (isLength 5 None) msg_nome_curto,
                   Validator False (isLength 0 (Some 200)) msg_nome_longo],
        c_negate = False\<rparr>,
      \<lparr>c_field = ''endereco.logradouro'', c_stack = [Validator True isEmpty msg_logradouro], c_negate = False\<rparr>,
      \<lparr>c_field = ''endereco.bairro'', c_stack = [Validator True isEmpty msg_bairro], c_negate = False\<rparr>,
      \<lparr>c_field = ''endereco.cidade'', c_stack = [Validator True isEmpty msg_cidade], c_negate = False\<rparr>,
      \<lparr>c_field = ''pontos'', c_stack = [Validator False isNumeric msg_pontos], c_negate = False\<rparr>,
      \<lparr>c_field = ''data'', c_stack = [Validator False (matches date_pattern) msg_data], c_negate = False\<rparr>,
      \<lparr>c_field = ''quantidade'', c_stack = [Validator False isNumeric msg_quantidade], c_negate = False\<rparr>]"
  by (simp add: validaBeneficio_def build_def check_def not_next_def validator_def sanitizer_def
      notEmpty_def withMessage_def)

lemma select_sanitized:
  assumes "path \<in> {''endereco.logradouro'', ''endereco.bairro'', ''endereco.cidade'', ''pontos'',
      ''data'', ''quantidade''}"
  shows "select (sanitized body) path = select body path"
  using assms by (auto simp: sanitized_def select_def update_conv)

lemma failures_sanitized:
  assumes "r_field r \<in> {''endereco.logradouro'', ''endereco.bairro'', ''endereco.cidade'', ''pontos'',
      ''data'', ''quantidade''}"
  shows "failures r (sanitized body) = failures r body"
  using select_sanitized [OF assms] by (simp add: failures_def seen_def)

lemma run_chains_validaBeneficio:
  "run_chains validaBeneficio body = (violations body, sanitized body)"
  by (simp add: stacks run_nome run_single failures_sanitized violations_def rules_def)




lemma post_invalid:
  "fst (run_chains validaBeneficio body) \<noteq> []
   \<Longrightarrow> route_post d body
       = (Responded 400 (validation_failure (fst (run_chains validaBeneficio body))), d)"
  by (cases "run_chains validaBeneficio body") (simp add: route_post_def)

lemma put_invalid:
  "fst (run_chains validaBeneficio body) \<noteq> []
   \<Longrightarrow> route_put ObjectId d body
       = (Responded 400 (validation_failure (fst (run_chains validaBeneficio body))), d)"
  by (cases "run_chains validaBeneficio body") (simp add: route_put_def Let_def)

lemma short_body_messages:
  "map e_msg (violations short_body)
   = [msg_nome_curto, msg_logradouro, msg_bairro, msg_cidade, msg_pontos, msg_data,
      msg_quantidade]"
  by code_simp





text \<open>
  C9: when the chains report a failure, POST and PUT answer 400 and return without a
  driver call: the collection, the record of calls and the identifier generator are
  as before the request.
\<close>

theorem invalid_request_leaves_storage:
  "fst (run_chains validaBeneficio body) \<noteq> [] \<Longrightarrow>
     route_post d body
       = (Responded 400 (validation_failure (fst (run_chains validaBeneficio body))), d)
     \<and> route_put ObjectId d body
       = (Responded 400 (validation_failure (fst (run_chains validaBeneficio body))), d)
     \<and> calls (snd (route_post d body)) = calls d
     \<and> docs (snd (route_post d body)) = docs d
     \<and> calls (snd (route_put ObjectId d body)) = calls d
     \<and> docs (snd (route_put ObjectId d body)) = docs d"
  by (simp add: post_invalid put_invalid)

theorem invalid_request_leaves_storage_witness:
  "fst (run_chains validaBeneficio short_body) \<noteq> []
   \<and> snd (route_post two_docs short_body) = two_docs
   \<and> snd (route_put hex_ObjectId two_docs short_body) = two_docs
   \<and> calls (snd (route_post two_docs short_body)) = []"
proof -
  have ne: "fst (run_chains validaBeneficio short_body) \<noteq> []"
    using short_body_messages by (auto simp: run_chains_validaBeneficio)
  from invalid_request_leaves_storage [OF ne, of two_docs hex_ObjectId]
  show ?thesis
    using ne by (simp add: two_docs_def)
qed

section \<open>Properties of the routes by identifier\<close>

lemma at_most_one_key:
  "distinct (map f xs) \<Longrightarrow> length (filter (\<lambda>x. f x = v) xs) \<le> 1"
proof (induction xs)
  case Nil
  then show ?case by simp
next
  case (Cons x xs)
  show ?case
  proof (cases "f x = v")
    case True
    with Cons.prems have "\<forall>y \<in> set xs. f y \<noteq> v" by (auto simp: image_iff)
    then have "filter (\<lambda>x. f x = v) xs = []" by (simp add: filter_empty_conv)
    with True show ?thesis by simp
  next
    case False
    with Cons show ?thesis by simp
  qed
qed

lemma at_most_one_id: "unique_ids d \<Longrightarrow> length (filter (id_is oid) (docs d)) \<le> 1"
  using at_most_one_key [of "field ''_id''" "docs d" "Some (JOid oid)"]
  by (simp add: unique_ids_def id_is_def [abs_def])

lemma get_by_id_found:
  "ObjectId (Some (JStr id_param)) = Inr oid \<Longrightarrow>
     route_get_by_id ObjectId d id_param
       = (Responded 200 (JArr (filter (id_is oid) (docs d))), issue (Find (IdEq oid) None None []) d)"
  by (simp add: route_get_by_id_def issue_def Let_def)

lemma get_by_id_malformed:
  "ObjectId (Some (JStr id_param)) = Inl message \<Longrightarrow>
     route_get_by_id ObjectId d id_param
       = (Responded 500
            (JObj [(''errors'', JArr [JObj [(''value'', JStr message),
                (''msg'', JStr (''Erro ao obter o benef'' @ [CHR 0xED] @ ''cio pelo ID'')),
                (''param'', JStr ''/id/:id'')]])]), d)"
  by (simp add: route_get_by_id_def structured_error_def)

lemma hex_two: "hex_ObjectId (Some (JStr ''000000000000000000000002'')) = Inr 2"
  by code_simp
lemma hex_nine: "hex_ObjectId (Some (JStr ''000000000000000000000009'')) = Inr 9"
  by code_simp
lemma hex_bad: "hex_ObjectId (Some (JStr ''42'')) = Inl ''input must be a 24 character hex string, 12 byte Uint8Array, or an integer''"
  by code_simp
lemma two_docs_unique: "unique_ids two_docs"
  by code_simp

text \<open>
  C2: in a collection with unique identifiers, a request whose identifier the
  constructor accepts is answered 200 with the array of the matching documents, none
  or one (the empty array when none matches); a request whose identifier the
  constructor rejects is answered 500 with an error object of \<^verbatim>\<open>value\<close>, \<^verbatim>\<open>msg\<close> and
  \<^verbatim>\<open>param\<close>.
\<close>

theorem get_by_id_responses:
  assumes "unique_ids d"
  shows "(\<forall>oid. ObjectId (Some (JStr id_param)) = Inr oid \<longrightarrow>
            (\<exists>found. route_get_by_id ObjectId d id_param
                  = (Responded 200 (JArr found), issue (Find (IdEq oid) None None []) d)
               \<and> found = filter (id_is oid) (docs d)
               \<and> length found \<le> 1
               \<and> ((\<forall>doc \<in> set (docs d). \<not> id_is oid doc) \<longrightarrow> found = [])))
         \<and> (\<forall>message. ObjectId (Some (JStr id_param)) = Inl message \<longrightarrow>
            route_get_by_id ObjectId d id_param
              = (Responded 500
                   (JObj [(''errors'', JArr [JObj [(''value'', JStr message),
                       (''msg'', JStr (''Erro ao obter o benef'' @ [CHR 0xED] @ ''cio pelo ID'')),
                       (''param'', JStr ''/id/:id'')]])]), d))"
  using at_most_one_id [OF assms] get_by_id_found [of ObjectId id_param _ d]
    get_by_id_malformed [of ObjectId id_param _ d]
  by (auto simp: filter_empty_conv)

theorem get_by_id_responses_witness:
  "unique_ids two_docs
   \<and> fst (route_get_by_id hex_ObjectId two_docs ''000000000000000000000002'')
       = Responded 200 (JArr [JObj [(''_id'', JOid 2),
            (''nome'', JStr (''Aux'' @ [CHR 0xED] @ ''lio g'' @ [CHR 0xE1] @ ''s''))]])
   \<and> fst (route_get_by_id hex_ObjectId two_docs ''000000000000000000000009'')
       = Responded 200 (JArr [])
   \<and> (\<exists>e. fst (route_get_by_id hex_ObjectId two_docs ''42'')
       = Responded 500 (JObj [(''errors'', JArr [JObj [(''value'', JStr e),
                       (''msg'', JStr (''Erro ao obter o benef'' @ [CHR 0xED] @ ''cio pelo ID'')),
                       (''param'', JStr ''/id/:id'')]])]))"
proof -
  note t = get_by_id_responses [OF two_docs_unique, of hex_ObjectId]
  from t [of "''000000000000000000000002''"] hex_two
  have a: "fst (route_get_by_id hex_ObjectId two_docs ''000000000000000000000002'')
       = Responded 200 (JArr (filter (id_is 2) (docs two_docs)))"
    by auto
  from t [of "''000000000000000000000009''"] hex_nine
  have b: "fst (route_get_by_id hex_ObjectId two_docs ''000000000000000000000009'')
       = Responded 200 (JArr (filter (id_is 9) (docs two_docs)))"
    by auto
  from t [of "''42''"] hex_bad
  have c: "\<exists>e. fst (route_get_by_id hex_ObjectId two_docs ''42'')
       = Responded 500 (JObj [(''errors'', JArr [JObj [(''value'', JStr e),
                       (''msg'', JStr (''Erro ao obter o benef'' @ [CHR 0xED] @ ''cio pelo ID'')),
                       (''param'', JStr ''/id/:id'')]])])"
    by auto
  from a b c two_docs_unique show ?thesis
    by (simp add: two_docs_def id_is_def)
qed

lemma remove_first_length:
  "list_ex P xs \<Longrightarrow> length (remove_first P xs) + 1 = length xs"
  by (induction xs) auto

lemma remove_first_none: "\<not> list_ex P xs \<Longrightarrow> remove_first P xs = xs"
  by (induction xs) auto

lemma remove_first_subset: "set (remove_first P xs) \<subseteq> set xs"
  by (induction xs) auto

lemma remove_first_distinct: "distinct (map f xs) \<Longrightarrow> distinct (map f (remove_first P xs))"
proof (induction xs)
  case Nil
  then show ?case by simp
next
  case (Cons x xs)
  then show ?case using remove_first_subset [of P xs] by auto
qed

lemma remove_first_unique:
  "distinct (map f xs) \<Longrightarrow> \<not> list_ex (\<lambda>x. f x = v) (remove_first (\<lambda>x. f x = v) xs)"
  by (induction xs) (auto simp: list_ex_iff image_iff)

lemma delete_unique:
  "unique_ids d \<Longrightarrow> \<not> list_ex (id_is oid) (remove_first (id_is oid) (docs d))"
  using remove_first_unique [of "field ''_id''" "docs d" "Some (JOid oid)"]
  by (simp add: unique_ids_def id_is_def [abs_def])

lemma delete_missing:
  "ObjectId (Some (JStr id_param)) = Inr oid \<Longrightarrow> \<not> list_ex (id_is oid) (docs d) \<Longrightarrow>
     route_delete ObjectId d id_param
       = (Responded 404
            (JObj [(''errors'', JArr [JObj [
                (''value'', JStr (''N'' @ [CHR 0xE3] @ ''o h'' @ [CHR 0xE1] @ '' nenhum benef''
                     @ [CHR 0xED] @ ''cio com o id '' @ id_param)),
                (''msg'', JStr (''Erro ao excluir o benef'' @ [CHR 0xED] @ ''cio'')),
                (''param'', JStr ''/:id'')]])]),
          issue (DeleteOne (IdEq oid)) d)"
  by (simp add: route_delete_def deleteOne_def issue_def Let_def structured_error_def
      remove_first_none)

lemma delete_present:
  "ObjectId (Some (JStr id_param)) = Inr oid \<Longrightarrow> list_ex (id_is oid) (docs d) \<Longrightarrow>
     route_delete ObjectId d id_param
       = (Responded 200 (JObj [(''acknowledged'', JBool True), (''deletedCount'', JNum 1)]),
          (issue (DeleteOne (IdEq oid)) d)\<lparr>docs := remove_first (id_is oid) (docs d)\<rparr>)"
  by (simp add: route_delete_def deleteOne_def issue_def Let_def)

lemma delete_malformed:
  "ObjectId (Some (JStr id_param)) = Inl message \<Longrightarrow>
     route_delete ObjectId d id_param = (Unhandled message, d)"
  by (simp add: route_delete_def)

lemma list_handled: "fst (route_list srt d q) \<noteq> Unhandled m"
  by (simp add: route_list_def Let_def split: sum.splits)

lemma get_by_id_handled: "fst (route_get_by_id ObjectId d i) \<noteq> Unhandled m"
  by (simp add: route_get_by_id_def Let_def split: sum.splits)

lemma get_by_nome_handled: "fst (route_get_by_nome d f) \<noteq> Unhandled m"
  by (simp add: route_get_by_nome_def Let_def split: compiled.splits)

lemma post_handled: "fst (route_post d body) \<noteq> Unhandled m"
  by (simp add: route_post_def split: prod.splits driver_result.splits)

lemma put_handled: "fst (route_put ObjectId d body) \<noteq> Unhandled m"
  by (simp add: route_put_def Let_def split: prod.splits driver_result.splits sum.splits)

text \<open>
  C5: when the constructor accepts the identifier, a deletion that removes nothing is
  answered 404 with an error whose value names the identifier, and a deletion that
  removes a document is answered 200 with the driver's result, one document fewer in
  the collection. When the constructor rejects the identifier the error leaves the
  handler and no response is sent; no other route ends that way.
\<close>

theorem delete_responses:
  "(\<forall>oid. ObjectId (Some (JStr id_param)) = Inr oid \<longrightarrow>
      (\<not> list_ex (id_is oid) (docs d) \<longrightarrow>
         route_delete ObjectId d id_param
           = (Responded 404
                (JObj [(''errors'', JArr [JObj [
                    (''value'', JStr (''N'' @ [CHR 0xE3] @ ''o h'' @ [CHR 0xE1] @ '' nenhum benef''
                         @ [CHR 0xED] @ ''cio com o id '' @ id_param)),
                    (''msg'', JStr (''Erro ao excluir o benef'' @ [CHR 0xED] @ ''cio'')),
                    (''param'', JStr ''/:id'')]])]),
              issue (DeleteOne (IdEq oid)) d))
      \<and> (list_ex (id_is oid) (docs d) \<longrightarrow>
           fst (route_delete ObjectId d id_param)
             = Responded 200 (JObj [(''acknowledged'', JBool True), (''deletedCount'', JNum 1)])
           \<and> docs (snd (route_delete ObjectId d id_param)) = remove_first (id_is oid) (docs d)
           \<and> length (docs (snd (route_delete ObjectId d id_param))) + 1 = length (docs d)
           \<and> (unique_ids d \<longrightarrow>
                \<not> list_ex (id_is oid) (docs (snd (route_delete ObjectId d id_param))))))
   \<and> (\<forall>message. ObjectId (Some (JStr id_param)) = Inl message \<longrightarrow>
         route_delete ObjectId d id_param = (Unhandled message, d))
   \<and> (\<forall>m. fst (route_list srt d q) \<noteq> Unhandled m
         \<and> fst (route_get_by_id ObjectId d id_param) \<noteq> Unhandled m
         \<and> fst (route_get_by_nome d filtro) \<noteq> Unhandled m
         \<and> fst (route_post d body) \<noteq> Unhandled m
         \<and> fst (route_put ObjectId d body) \<noteq> Unhandled m)"
proof -
  have present: "fst (route_delete ObjectId d id_param)
             = Responded 200 (JObj [(''acknowledged'', JBool True), (''deletedCount'', JNum 1)])
           \<and> docs (snd (route_delete ObjectId d id_param)) = remove_first (id_is oid) (docs d)
           \<and> length (docs (snd (route_delete ObjectId d id_param))) + 1 = length (docs d)
           \<and> (unique_ids d \<longrightarrow>
                \<not> list_ex (id_is oid) (docs (snd (route_delete ObjectId d id_param))))"
    if "ObjectId (Some (JStr id_param)) = Inr oid" and "list_ex (id_is oid) (docs d)" for oid
    using that delete_present [of ObjectId id_param oid d]
      remove_first_length [of "id_is oid" "docs d"] delete_unique [of d oid]
    by (simp add: issue_def)
  have found: "\<forall>oid. ObjectId (Some (JStr id_param)) = Inr oid \<longrightarrow>
      (\<not> list_ex (id_is oid) (docs d) \<longrightarrow>
         route_delete ObjectId d id_param
           = (Responded 404
                (JObj [(''errors'', JArr [JObj [
                    (''value'', JStr (''N'' @ [CHR 0xE3] @ ''o h'' @ [CHR 0xE1] @ '' nenhum benef''
                         @ [CHR 0xED] @ ''cio com o id '' @ id_param)),
                    (''msg'', JStr (''Erro ao excluir o benef'' @ [CHR 0xED] @ ''cio'')),
                    (''param'', JStr ''/:id'')]])]),
              issue (DeleteOne (IdEq oid)) d))
      \<and> (list_ex (id_is oid) (docs d) \<longrightarrow>
           fst (route_delete ObjectId d id_param)
             = Responded 200 (JObj [(''acknowledged'', JBool True), (''deletedCount'', JNum 1)])
           \<and> docs (snd (route_delete ObjectId d id_param)) = remove_first (id_is oid) (docs d)
           \<and> length (docs (snd (route_delete ObjectId d id_param))) + 1 = length (docs d)
           \<and> (unique_ids d \<longrightarrow>
                \<not> list_ex (id_is oid) (docs (snd (route_delete ObjectId d id_param)))))"
  proof (intro allI impI)
    fix oid
    assume h: "ObjectId (Some (JStr id_param)) = Inr oid"
    show "(\<not> list_ex (id_is oid) (docs d) \<longrightarrow>
         route_delete ObjectId d id_param
           = (Responded 404
                (JObj [(''errors'', JArr [JObj [
                    (''value'', JStr (''N'' @ [CHR 0xE3] @ ''o h'' @ [CHR 0xE1] @ '' nenhum benef''
                         @ [CHR 0xED] @ ''cio com o id '' @ id_param)),
                    (''msg'', JStr (''Erro ao excluir o benef'' @ [CHR 0xED] @ ''cio'')),
                    (''param'', JStr ''/:id'')]])]),
              issue (DeleteOne (IdEq oid)) d))
      \<and> (list_ex (id_is oid) (docs d) \<longrightarrow>
           fst (route_delete ObjectId d id_param)
             = Responded 200 (JObj [(''acknowledged'', JBool True), (''deletedCount'', JNum 1)])
           \<and> docs (snd (route_delete ObjectId d id_param)) = remove_first (id_is oid) (docs d)
           \<and> length (docs (snd (route_delete ObjectId d id_param))) + 1 = length (docs d)
           \<and> (unique_ids d \<longrightarrow>
                \<not> list_ex (id_is oid) (docs (snd (route_delete ObjectId d id_param)))))"
    proof (cases "list_ex (id_is oid) (docs d)")
      case True
      from present [OF h True] True show ?thesis by blast
    next
      case False
      from delete_missing [of ObjectId id_param oid d] h False show ?thesis by blast
    qed
  qed
  have malformed: "\<forall>message. ObjectId (Some (JStr id_param)) = Inl message \<longrightarrow>
         route_delete ObjectId d id_param = (Unhandled message, d)"
    by (simp add: delete_malformed)
  have others: "\<forall>m. fst (route_list srt d q) \<noteq> Unhandled m
         \<and> fst (route_get_by_id ObjectId d id_param) \<noteq> Unhandled m
         \<and> fst (route_get_by_nome d filtro) \<noteq> Unhandled m
         \<and> fst (route_post d body) \<noteq> Unhandled m
         \<and> fst (route_put ObjectId d body) \<noteq> Unhandled m"
    by (simp add: list_handled get_by_id_handled get_by_nome_handled post_handled put_handled)
  from found malformed others show ?thesis
    by (intro conjI)
qed

theorem delete_responses_witness:
  "route_delete hex_ObjectId two_docs ''000000000000000000000002''
     = (Responded 200 (JObj [(''acknowledged'', JBool True), (''deletedCount'', JNum 1)]),
        two_docs\<lparr>docs := [JObj [(''_id'', JOid 1), (''nome'', JStr (''Cesta B'' @ [CHR 0xE1] @ ''sica''))]],
                  calls := [DeleteOne (IdEq 2)]\<rparr>)
   \<and> fst (route_delete hex_ObjectId two_docs ''000000000000000000000009'')
     = Responded 404
                (JObj [(''errors'', JArr [JObj [
                    (''value'', JStr (''N'' @ [CHR 0xE3] @ ''o h'' @ [CHR 0xE1] @ '' nenhum benef''
                         @ [CHR 0xED] @ ''cio com o id 000000000000000000000009'')),
                    (''msg'', JStr (''Erro ao excluir o benef'' @ [CHR 0xED] @ ''cio'')),
                    (''param'', JStr ''/:id'')]])])
   \<and> (\<exists>e. route_delete hex_ObjectId two_docs ''42'' = (Unhandled e, two_docs))"
proof -
  note two = hex_two and nine = hex_nine
  have bad: "\<exists>e. hex_ObjectId (Some (JStr ''42'')) = Inl e" using hex_bad by simp
  have ex2: "list_ex (id_is 2) (docs two_docs)" by code_simp
  have ex9: "\<not> list_ex (id_is 9) (docs two_docs)" by code_simp
  note t = delete_responses [of hex_ObjectId _ two_docs]
  from t [of "''000000000000000000000002''"] two ex2
  have a: "fst (route_delete hex_ObjectId two_docs ''000000000000000000000002'')
             = Responded 200 (JObj [(''acknowledged'', JBool True), (''deletedCount'', JNum 1)])"
    by blast
  have a': "snd (route_delete hex_ObjectId two_docs ''000000000000000000000002'')
      = two_docs\<lparr>docs := [JObj [(''_id'', JOid 1), (''nome'', JStr (''Cesta B'' @ [CHR 0xE1] @ ''sica''))]],
                  calls := [DeleteOne (IdEq 2)]\<rparr>"
    using two by (simp add: route_delete_def deleteOne_def issue_def Let_def two_docs_def id_is_def)
  from t [of "''000000000000000000000009''"] nine ex9
  have b: "fst (route_delete hex_ObjectId two_docs ''000000000000000000000009'')
     = Responded 404
                (JObj [(''errors'', JArr [JObj [
                    (''value'', JStr (''N'' @ [CHR 0xE3] @ ''o h'' @ [CHR 0xE1] @ '' nenhum benef''
                         @ [CHR 0xED] @ ''cio com o id 000000000000000000000009'')),
                    (''msg'', JStr (''Erro ao excluir o benef'' @ [CHR 0xED] @ ''cio'')),
                    (''param'', JStr ''/:id'')]])])"
    by simp
  from t [of "''42''"] bad
  have c: "\<exists>e. route_delete hex_ObjectId two_docs ''42'' = (Unhandled e, two_docs)"
    by blast
  from a a' b c show ?thesis
    by (simp add: prod_eq_iff)
qed

section \<open>Properties of create and update\<close>




















section \<open>Properties of the search by name\<close>

lemma tokens_plain:
  "\<forall>c \<in> set s. \<not> metachar c \<Longrightarrow> tokens s = map (\<lambda>c. TAtom (Literal c)) s"
proof (induction s)
  case Nil
  then show ?case by simp
next
  case (Cons c s)
  then have "\<not> metachar c" by simp
  then have "c \<noteq> CHR 0x5C" and "token_of c = TAtom (Literal c)"
    by (auto simp: metachar_def token_of_def)
  with Cons show ?case by simp
qed

lemma assemble_literals:
  "assemble (map (\<lambda>c. TAtom (Literal c)) s) = Pattern (map (\<lambda>c. (Literal c, One)) s)"
proof (induction s)
  case Nil
  then show ?case by simp
next
  case (Cons c s)
  then show ?case by (cases s) (simp_all add: followed_by_def)
qed

lemma compile_plain:
  "\<forall>c \<in> set s. \<not> metachar c \<Longrightarrow> compile s = Pattern (map (\<lambda>c. (Literal c, One)) s)"
  by (simp add: compile_def tokens_plain assemble_literals)

lemma match_here_literals:
  "match_here (map (\<lambda>c. (Literal c, One)) p) s = prefix (map fold_case p) (map fold_case s)"
proof (induction p arbitrary: s)
  case Nil
  then show ?case by simp
next
  case (Cons c p)
  then show ?case by (cases s) auto
qed

lemma search_literals:
  "search (map (\<lambda>c. (Literal c, One)) p) s = sublist (map fold_case p) (map fold_case s)"
proof (induction s)
  case Nil
  then show ?case by (simp add: match_here_literals)
next
  case (Cons c s)
  then show ?case by (simp add: match_here_literals sublist_Cons_right)
qed

lemma nome_matches_literals:
  "nome_matches (map (\<lambda>c. (Literal c, One)) p) doc = nome_contains p doc"
proof -
  have "(\<lambda>x. case x of JStr s \<Rightarrow> search (map (\<lambda>c. (Literal c, One)) p) s | _ \<Rightarrow> False)
      = (\<lambda>x. case x of JStr s \<Rightarrow> contains_ci p s | _ \<Rightarrow> False)"
    by (auto simp: fun_eq_iff search_literals contains_ci_def split: json.splits)
  then show ?thesis
    by (simp add: nome_matches_def nome_contains_def search_literals contains_ci_def
        split: option.splits json.splits)
qed

lemma plus_contains: "contains_ci ''A+B'' ''Vale A+B''"
proof -
  have "map fold_case ''Vale A+B'' = map fold_case ''Vale '' @ map fold_case ''A+B'' @ []"
    by simp
  then show ?thesis
    unfolding contains_ci_def by (metis sublist_appendI)
qed

lemma plus_search: "fst (route_get_by_nome plus_docs ''A+B'') = Responded 200 (JArr [])"
  by code_simp

lemma unaccented_search: "fst (route_get_by_nome two_docs ''ta bas'') = Responded 200 (JArr [])"
  by code_simp

lemma cesta_search:
  "fst (route_get_by_nome two_docs ''cesta'') = Responded 200 (JArr [hd (docs two_docs)])"
  by code_simp

lemma basica_search:
  "fst (route_get_by_nome two_docs (''B'' @ [CHR 0xC1] @ ''SICA''))
     = Responded 200 (JArr [hd (docs two_docs)])"
  by code_simp

lemma accented_search:
  "fst (route_get_by_nome two_docs (''ta b'' @ [CHR 0xE1] @ ''s''))
     = Responded 200 (JArr [hd (docs two_docs)])"
  by code_simp

text \<open>
  C6, as stated, at two requests. The document named \<^verbatim>\<open>Vale A+B\<close> contains the text
  \<^verbatim>\<open>A+B\<close>, but the search \<^verbatim>\<open>/nome/A+B\<close> reads \<^verbatim>\<open>+\<close> as a quantifier and returns nothing.
  The document whose name is Cesta Basica with an acute accent on the first a of Basica
  (the character 0xE1) is not returned for \<^verbatim>\<open>/nome/ta bas\<close>: ignoring letter case does
  not ignore the accent.
\<close>

theorem search_by_nome_not_substring:
  "field ''nome'' (hd (docs plus_docs)) = Some (JStr ''Vale A+B'')
   \<and> contains_ci ''A+B'' ''Vale A+B''
   \<and> fst (route_get_by_nome plus_docs ''A+B'') = Responded 200 (JArr [])
   \<and> field ''nome'' (hd (docs two_docs)) = Some (JStr (''Cesta B'' @ [CHR 0xE1] @ ''sica''))
   \<and> fst (route_get_by_nome two_docs ''ta bas'') = Responded 200 (JArr [])"
  using plus_contains plus_search unaccented_search
  by (simp add: plus_docs_def two_docs_def)

text \<open>
  C6, amended: the query matches \<^verbatim>\<open>nome\<close> only, against \<^verbatim>\<open>filtro\<close> read as a
  case-insensitive regular expression. When \<^verbatim>\<open>filtro\<close> has no metacharacter of regular
  expressions, the documents returned are exactly those whose \<^verbatim>\<open>nome\<close> contains
  \<^verbatim>\<open>filtro\<close> as a substring, letter case ignored and accents kept.
\<close>

theorem search_by_nome_substring:
  assumes "\<forall>c \<in> set filtro. \<not> metachar c"
  shows "route_get_by_nome d filtro
     = (Responded 200 (JArr (filter (nome_contains filtro) (docs d))),
        issue (Find (NomeRegex filtro) None None []) d)"
  using compile_plain [OF assms]
  by (simp add: route_get_by_nome_def Let_def issue_def nome_matches_literals [abs_def])

theorem search_by_nome_substring_witness:
  "\<not> list_ex metachar ''cesta''
   \<and> fst (route_get_by_nome two_docs ''cesta'') = Responded 200 (JArr [hd (docs two_docs)])
   \<and> filter (nome_contains ''cesta'') (docs two_docs) = [hd (docs two_docs)]
   \<and> filter (nome_contains (''B'' @ [CHR 0xC1] @ ''SICA'')) (docs two_docs) = [hd (docs two_docs)]
   \<and> filter (nome_contains (''ta b'' @ [CHR 0xE1] @ ''s'')) (docs two_docs) = [hd (docs two_docs)]
   \<and> filter (nome_contains ''ta bas'') (docs two_docs) = []"
proof -
  have m1: "\<forall>c \<in> set ''cesta''. \<not> metachar c" by (simp add: metachar_def)
  have m2: "\<forall>c \<in> set (''B'' @ [CHR 0xC1] @ ''SICA''). \<not> metachar c" by (simp add: metachar_def)
  have m3: "\<forall>c \<in> set (''ta b'' @ [CHR 0xE1] @ ''s''). \<not> metachar c" by (simp add: metachar_def)
  have m4: "\<forall>c \<in> set ''ta bas''. \<not> metachar c" by (simp add: metachar_def)
  from search_by_nome_substring [OF m1, of two_docs] cesta_search
  have a: "filter (nome_contains ''cesta'') (docs two_docs) = [hd (docs two_docs)]" by simp
  from search_by_nome_substring [OF m2, of two_docs] basica_search
  have b: "filter (nome_contains (''B'' @ [CHR 0xC1] @ ''SICA'')) (docs two_docs) = [hd (docs two_docs)]"
    by simp
  from search_by_nome_substring [OF m3, of two_docs] accented_search
  have c: "filter (nome_contains (''ta b'' @ [CHR 0xE1] @ ''s'')) (docs two_docs) = [hd (docs two_docs)]"
    by simp
  from search_by_nome_substring [OF m4, of two_docs] unaccented_search
  have d: "filter (nome_contains ''ta bas'') (docs two_docs) = []" by simp
  from m1 have "\<not> list_ex metachar ''cesta''"
    by (simp only: list_ex_iff) blast
  with a b c d cesta_search show ?thesis by simp
qed

section \<open>Identifiers stay unique\<close>

text \<open>
  Every route keeps \<open>unique_ids\<close>: an insertion under an identifier already in the
  collection is refused, an update does not change \<^verbatim>\<open>_id\<close>, and a deletion only removes a
  document. So the collection has unique identifiers after any sequence of requests
  that starts from a collection that has them, the empty one for instance.
\<close>

lemma unique_ids_map:
  "unique_ids d \<longleftrightarrow>
     distinct (map (field ''_id'') (docs d)) \<and> None \<notin> set (map (field ''_id'') (docs d))"
proof -
  have "(\<forall>doc \<in> set (docs d). field ''_id'' doc \<noteq> None)
      = (None \<notin> field ''_id'' ` set (docs d))"
    by force
  then show ?thesis
    by (simp add: unique_ids_def list_all_iff)
qed

lemma unique_ids_same_ids:
  "map (field ''_id'') (docs d1) = map (field ''_id'') (docs d) \<Longrightarrow> unique_ids d1 = unique_ids d"
  by (simp only: unique_ids_map)

lemma unique_ids_snoc:
  assumes "unique_ids d" and "\<not> list_ex (\<lambda>other. field ''_id'' other = Some pk) (docs d)"
    and "docs d1 = docs d @ [JObj ((''_id'', pk) # rest)]"
  shows "unique_ids d1"
  using assms by (auto simp: unique_ids_map list_ex_iff image_iff)

lemma insert_docs:
  "docs (snd (insertOne doc d)) = docs d
   \<or> (\<exists>pk rest. \<not> list_ex (\<lambda>other. field ''_id'' other = Some pk) (docs d)
        \<and> docs (snd (insertOne doc d)) = docs d @ [JObj ((''_id'', pk) # rest)])"
  by (simp add: insertOne_def issue_def Let_def del: plain.simps)

lemma insert_unique: "unique_ids d \<Longrightarrow> unique_ids (snd (insertOne doc d))"
  using insert_docs [of doc d] unique_ids_snoc [of d _ "snd (insertOne doc d)"]
    unique_ids_same_ids [of "snd (insertOne doc d)" d]
  by auto

lemma post_unique:
  assumes "unique_ids d"
  shows "unique_ids (snd (route_post d body))"
proof -
  obtain errors b where rc: "run_chains validaBeneficio body = (errors, b)"
    by (cases "run_chains validaBeneficio body")
  obtain r d1 where ins: "insertOne b d = (r, d1)"
    by (cases "insertOne b d")
  from insert_unique [OF assms, of b] ins have "unique_ids d1" by simp
  with assms show ?thesis
    by (cases r) (simp_all add: route_post_def rc ins)
qed

lemma replace_first_one:
  "find P xs = Some x \<Longrightarrow> g (f x) = g x \<Longrightarrow> map g (replace_first P f xs) = map g xs"
  by (induction xs) (auto split: if_splits)

lemma update_ids:
  "map (field ''_id'') (docs (snd (updateOne oid changes d))) = map (field ''_id'') (docs d)"
proof (cases "find (id_is oid) (docs d)")
  case None
  then show ?thesis
    by (simp add: updateOne_def issue_def Let_def del: plain.simps)
next
  case (Some doc)
  then show ?thesis
    using replace_first_one [OF Some, of "field ''_id''" "apply_set changes"]
    by (simp add: updateOne_def issue_def Let_def del: plain.simps)
qed

lemma put_ids:
  "map (field ''_id'') (docs (snd (route_put ObjectId d body))) = map (field ''_id'') (docs d)"
proof -
  obtain errors b where rc: "run_chains validaBeneficio body = (errors, b)"
    by (cases "run_chains validaBeneficio body")
  show ?thesis
  proof (cases "ObjectId (map_of b ''_id'')")
    case (Inl message)
    then show ?thesis by (simp add: route_put_def rc Let_def)
  next
    case (Inr oid)
    obtain r d1 where upd: "updateOne oid (AList.delete ''_id'' b) d = (r, d1)"
      by (cases "updateOne oid (AList.delete ''_id'' b) d")
    from update_ids [of oid "AList.delete ''_id'' b" d] upd
    have "map (field ''_id'') (docs d1) = map (field ''_id'') (docs d)" by simp
    then show ?thesis
      by (cases r) (simp_all add: route_put_def rc Let_def Inr upd)
  qed
qed

lemma put_unique: "unique_ids d \<Longrightarrow> unique_ids (snd (route_put ObjectId d body))"
  using unique_ids_same_ids [OF put_ids] by simp

lemma delete_keeps_unique:
  assumes "unique_ids d"
  shows "unique_ids (snd (route_delete ObjectId d i))"
proof (cases "ObjectId (Some (JStr i))")
  case (Inl message)
  with assms show ?thesis by (simp add: route_delete_def)
next
  case (Inr oid)
  have d: "docs (snd (route_delete ObjectId d i)) = remove_first (id_is oid) (docs d)"
    by (simp add: route_delete_def Inr deleteOne_def issue_def Let_def)
  from assms have "distinct (map (field ''_id'') (remove_first (id_is oid) (docs d)))"
    by (simp add: unique_ids_def remove_first_distinct)
  moreover from assms have "list_all (\<lambda>doc. field ''_id'' doc \<noteq> None) (remove_first (id_is oid) (docs d))"
    using remove_first_subset [of "id_is oid" "docs d"] by (auto simp: unique_ids_def list_all_iff)
  ultimately show ?thesis
    by (simp add: unique_ids_def d)
qed

lemma reads_keep_docs:
  "docs (snd (route_list srt d q)) = docs d
   \<and> docs (snd (route_get_by_id ObjectId d i)) = docs d
   \<and> docs (snd (route_get_by_nome d f)) = docs d"
  by (simp add: route_list_def route_get_by_id_def route_get_by_nome_def issue_def Let_def
      split: sum.splits compiled.splits)

end
